theory Spec2Isabelle
  imports Complex_Main
begin

section \<open>Data model\<close>

text \<open>
  The two interfaces of the API module.  A \<open>Predictions\<close> object holds four
  probabilities; the code only compares them (\<open>Math.min\<close>, \<open>Math.max\<close>, \<open>>=\<close>),
  and both \<open>Math.min\<close> and \<open>Math.max\<close> return one of their arguments, so the
  numbers are modelled as reals with their order.  The only arithmetic on a
  probability is \<open>1 - x\<close> in the row component.  An \<open>Allocation\<close> holds four
  percentages coming from range inputs with step 1, modelled as integers.
\<close>

record Predictions =
  above_15pct :: real
  above_10pct :: real
  above_5pct :: real
  above_0pct :: real

record Allocation =
  stocks :: int
  bonds :: int
  cash :: int
  gold :: int

text \<open>The type \<open>keyof Predictions\<close>.\<close>

datatype PredictionKey = Above_15pct | Above_10pct | Above_5pct | Above_0pct

text \<open>The type \<open>'stocks' | 'bonds' | 'gold'\<close> of the cash-adjusting handler.\<close>

datatype AdjustKey = KStocks | KBonds | KGold

text \<open>The four slider rows of the allocation component, in the order they are rendered.\<close>

datatype SliderRow = StocksRow | BondsRow | GoldRow | CashRow


section \<open>PredictionRow: direction and confidence\<close>

definition isYes :: "real \<Rightarrow> bool" where
  "isYes v = (v \<ge> 0.5)"

definition confidence :: "real \<Rightarrow> real" where
  "confidence v = (if isYes v then v else 1 - v)"

text \<open>
  The two handlers of a row; the result is the value handed to the row's
  \<open>onChange\<close>.  The first argument is the row's current \<open>value\<close> prop.
\<close>

definition handleDirectionChange :: "real \<Rightarrow> bool \<Rightarrow> real" where
  "handleDirectionChange v newIsYes =
     (if newIsYes then confidence v else 1 - confidence v)"

definition handleConfidenceChange :: "real \<Rightarrow> real \<Rightarrow> real" where
  "handleConfidenceChange v newConfidence =
     (if isYes v then newConfidence else 1 - newConfidence)"


section \<open>PredictionForm: updatePrediction\<close>

text \<open>
  The computed-key copy \<open>{ ...predictions, [key]: value }\<close> and the property read
  \<open>predictions[key]\<close>.
\<close>

fun set_prediction :: "Predictions \<Rightarrow> PredictionKey \<Rightarrow> real \<Rightarrow> Predictions" where
  "set_prediction p Above_15pct v = p\<lparr>above_15pct := v\<rparr>"
| "set_prediction p Above_10pct v = p\<lparr>above_10pct := v\<rparr>"
| "set_prediction p Above_5pct v = p\<lparr>above_5pct := v\<rparr>"
| "set_prediction p Above_0pct v = p\<lparr>above_0pct := v\<rparr>"

fun get_prediction :: "Predictions \<Rightarrow> PredictionKey \<Rightarrow> real" where
  "get_prediction p Above_15pct = above_15pct p"
| "get_prediction p Above_10pct = above_10pct p"
| "get_prediction p Above_5pct = above_5pct p"
| "get_prediction p Above_0pct = above_0pct p"

text \<open>
  Each branch performs its assignments in the order of the source; a later
  assignment reads the fields the earlier ones have already written.  The
  result is the object handed to \<open>onChange\<close>.
\<close>

definition updatePrediction :: "Predictions \<Rightarrow> PredictionKey \<Rightarrow> real \<Rightarrow> Predictions" where
  "updatePrediction predictions key v =
     (let n0 = set_prediction predictions key v in
      if key = Above_15pct then
        (let n1 = n0\<lparr>above_10pct := max (above_10pct n0) v\<rparr>;
             n2 = n1\<lparr>above_5pct := max (above_5pct n1) (above_10pct n1)\<rparr>;
             n3 = n2\<lparr>above_0pct := max (above_0pct n2) (above_5pct n2)\<rparr>
         in n3)
      else if key = Above_10pct then
        (let n1 = n0\<lparr>above_15pct := min (above_15pct n0) v\<rparr>;
             n2 = n1\<lparr>above_5pct := max (above_5pct n1) v\<rparr>;
             n3 = n2\<lparr>above_0pct := max (above_0pct n2) (above_5pct n2)\<rparr>
         in n3)
      else if key = Above_5pct then
        (let n1 = n0\<lparr>above_15pct := min (above_15pct n0) v\<rparr>;
             n2 = n1\<lparr>above_10pct := min (max (above_10pct n1) (above_15pct n1)) v\<rparr>;
             n3 = n2\<lparr>above_0pct := max (above_0pct n2) v\<rparr>
         in n3)
      else if key = Above_0pct then
        (let n1 = n0\<lparr>above_15pct := min (above_15pct n0) v\<rparr>;
             n2 = n1\<lparr>above_10pct := min (above_10pct n1) v\<rparr>;
             n3 = n2\<lparr>above_5pct := min (above_5pct n2) v\<rparr>
         in n3)
      else n0)"

text \<open>The ordering named in the source comment: P(>15%) <= P(>10%) <= P(>5%) <= P(>0%).\<close>

definition monotonic :: "Predictions \<Rightarrow> bool" where
  "monotonic p =
     (above_15pct p \<le> above_10pct p \<and> above_10pct p \<le> above_5pct p
      \<and> above_5pct p \<le> above_0pct p)"

definition probability :: "real \<Rightarrow> bool" where
  "probability x = (0 \<le> x \<and> x \<le> 1)"

definition probabilities :: "Predictions \<Rightarrow> bool" where
  "probabilities p =
     (probability (above_15pct p) \<and> probability (above_10pct p)
      \<and> probability (above_5pct p) \<and> probability (above_0pct p))"

text \<open>
  Position of a threshold in that ordering, and what the ordering demands of
  the field \<open>g\<close> holding \<open>x\<close> once another field \<open>f\<close> holds \<open>v\<close>: a tighter
  threshold must not exceed \<open>v\<close>, a looser one must not fall below it.
\<close>

fun rank :: "PredictionKey \<Rightarrow> nat" where
  "rank Above_15pct = 0"
| "rank Above_10pct = 1"
| "rank Above_5pct = 2"
| "rank Above_0pct = 3"

definition consistent_with :: "PredictionKey \<Rightarrow> real \<Rightarrow> PredictionKey \<Rightarrow> real \<Rightarrow> bool" where
  "consistent_with f v g x = (if rank g < rank f then x \<le> v else v \<le> x)"


section \<open>AllocationSliders\<close>

definition total :: "Allocation \<Rightarrow> int" where
  "total allocation = stocks allocation + bonds allocation + cash allocation + gold allocation"

definition isValid :: "Allocation \<Rightarrow> bool" where
  "isValid allocation = (total allocation = 100)"

text \<open>
  What the component reports about the current vector: the \<open>isValid\<close> flag and
  the difference \<open>total - 100\<close> it prints beside the total.
\<close>

record Validation =
  valid :: bool
  delta :: int

definition validateAllocation :: "Allocation \<Rightarrow> Validation" where
  "validateAllocation allocation =
     \<lparr>valid = isValid allocation, delta = total allocation - 100\<rparr>"

definition otherAssets :: "Allocation \<Rightarrow> AdjustKey \<Rightarrow> int" where
  "otherAssets allocation key =
     (if key = KStocks then bonds allocation + gold allocation
      else if key = KBonds then stocks allocation + gold allocation
      else stocks allocation + bonds allocation)"

fun set_asset :: "Allocation \<Rightarrow> AdjustKey \<Rightarrow> int \<Rightarrow> Allocation" where
  "set_asset a KStocks v = a\<lparr>stocks := v\<rparr>"
| "set_asset a KBonds v = a\<lparr>bonds := v\<rparr>"
| "set_asset a KGold v = a\<lparr>gold := v\<rparr>"

text \<open>
  The handlers close over the component's \<open>allocation\<close> prop, here the first
  argument; the result is the object handed to \<open>onChange\<close>.
\<close>

definition updateAllocationWithCashAdjust :: "Allocation \<Rightarrow> AdjustKey \<Rightarrow> int \<Rightarrow> Allocation" where
  "updateAllocationWithCashAdjust allocation key v =
     (let maxValue = 100 - otherAssets allocation key;
          cappedValue = min v maxValue;
          newCash = 100 - cappedValue - otherAssets allocation key
      in (set_asset allocation key cappedValue)\<lparr>cash := max 0 newCash\<rparr>)"

definition updateCash :: "Allocation \<Rightarrow> int \<Rightarrow> Allocation" where
  "updateCash allocation v =
     (let otherAssets3 = stocks allocation + bonds allocation + gold allocation;
          maxCash = 100 - otherAssets3
      in allocation\<lparr>cash := min v maxCash\<rparr>)"

definition applyPreset :: "Allocation \<Rightarrow> Allocation \<Rightarrow> Allocation" where
  "applyPreset allocation preset = preset"

text \<open>The \<open>onChange\<close> wiring of the four slider rows.\<close>

fun applyAllocationEdit :: "Allocation \<Rightarrow> SliderRow \<Rightarrow> int \<Rightarrow> Allocation" where
  "applyAllocationEdit a StocksRow v = updateAllocationWithCashAdjust a KStocks v"
| "applyAllocationEdit a BondsRow v = updateAllocationWithCashAdjust a KBonds v"
| "applyAllocationEdit a GoldRow v = updateAllocationWithCashAdjust a KGold v"
| "applyAllocationEdit a CashRow v = updateCash a v"

text \<open>
  The five vectors the buttons of this component pass to \<open>applyPreset\<close>, with
  the labels of their buttons.  They are the only call sites of \<open>applyPreset\<close>.
\<close>

definition sliderPresets :: "(string \<times> Allocation) list" where
  "sliderPresets =
     [(''60/40'', \<lparr>stocks = 60, bonds = 40, cash = 0, gold = 0\<rparr>),
      (''All Stocks'', \<lparr>stocks = 100, bonds = 0, cash = 0, gold = 0\<rparr>),
      (''All Bonds'', \<lparr>stocks = 0, bonds = 100, cash = 0, gold = 0\<rparr>),
      (''All Cash'', \<lparr>stocks = 0, bonds = 0, cash = 100, gold = 0\<rparr>),
      (''Equal'', \<lparr>stocks = 25, bonds = 25, cash = 25, gold = 25\<rparr>)]"

text \<open>
  The sum of the non-cash fields an edit of the given row leaves alone: the
  other two for a non-cash row, all three for the cash row.
\<close>

fun untouchedAssets :: "Allocation \<Rightarrow> SliderRow \<Rightarrow> int" where
  "untouchedAssets a StocksRow = bonds a + gold a"
| "untouchedAssets a BondsRow = stocks a + gold a"
| "untouchedAssets a GoldRow = stocks a + bonds a"
| "untouchedAssets a CashRow = stocks a + bonds a + gold a"

definition percentage :: "int \<Rightarrow> bool" where
  "percentage x = (0 \<le> x \<and> x \<le> 100)"

definition percentages :: "Allocation \<Rightarrow> bool" where
  "percentages a =
     (percentage (stocks a) \<and> percentage (bonds a) \<and> percentage (cash a) \<and> percentage (gold a))"


section \<open>Home: handleSubmit\<close>

datatype GameState = Loading | Playing | Submitting | Reveal

text \<open>
  The messages \<open>setError\<close> receives: the two validation messages (the second
  carries the total it prints) and the message of a failed request.
\<close>

datatype ErrorMessage =
    RationaleTooLong
  | AllocationsMustSum int
  | SubmitFailed string

record GameCreateInput =
  gc_scenario_id :: nat
  gc_predictions :: Predictions
  gc_allocation :: Allocation
  gc_rationale :: string

text \<open>The state of the page; \<open>scenario\<close> is kept by its identifier.\<close>

record Home =
  gameState :: GameState
  scenario :: "nat option"
  error :: "ErrorMessage option"
  predictions :: Predictions
  allocation :: Allocation
  rationale :: string

text \<open>
  What one run of the handler leaves behind: the page state, the
  \<open>api.createGame\<close> request it issued (if any) and the location it redirected
  to (if any).
\<close>

record Submitted =
  home :: Home
  request :: "GameCreateInput option"
  redirect :: "string option"

text \<open>
  The answer of \<open>api.createGame\<close> is a parameter: \<open>Inr token\<close> for a session, \<open>Inl
  msg\<close> for a rejected promise with \<open>err.message = msg\<close>.  It is consulted only
  after the request has been issued.
\<close>

definition handleSubmit :: "Home \<Rightarrow> (string + string) \<Rightarrow> Submitted" where
  "handleSubmit h answer =
     (case scenario h of
        None \<Rightarrow> \<lparr>home = h, request = None, redirect = None\<rparr>
      | Some sid \<Rightarrow>
          if length (rationale h) > 500 then
            \<lparr>home = h\<lparr>error := Some RationaleTooLong\<rparr>, request = None, redirect = None\<rparr>
          else
            (let total = stocks (allocation h) + bonds (allocation h)
                         + cash (allocation h) + gold (allocation h) in
             if total \<noteq> 100 then
               \<lparr>home = h\<lparr>error := Some (AllocationsMustSum total)\<rparr>,
                request = None, redirect = None\<rparr>
             else
               (let h1 = h\<lparr>gameState := Submitting, error := None\<rparr>;
                    input = \<lparr>gc_scenario_id = sid, gc_predictions = predictions h,
                             gc_allocation = allocation h, gc_rationale = rationale h\<rparr>
                in case answer of
                     Inr token \<Rightarrow>
                       \<lparr>home = h1, request = Some input,
                        redirect = Some (''/reveal/'' @ token)\<rparr>
                   | Inl msg \<Rightarrow>
                       \<lparr>home = h1\<lparr>error := Some (SubmitFailed
                                  (if msg = [] then ''Failed to submit predictions. Please try again.''
                                   else msg)),
                                gameState := Playing\<rparr>,
                        request = Some input, redirect = None\<rparr>)))"


text \<open>The initial values of the two \<open>useState\<close> hooks holding the vectors.\<close>

definition initialPredictions :: Predictions where
  "initialPredictions =
     \<lparr>above_15pct = 0.3, above_10pct = 0.4, above_5pct = 0.6, above_0pct = 0.75\<rparr>"

definition initialAllocation :: Allocation where
  "initialAllocation = \<lparr>stocks = 60, bonds = 30, cash = 5, gold = 5\<rparr>"


section \<open>Properties of the prediction form\<close>

lemma updatePrediction_monotonic:
  "monotonic p \<Longrightarrow> monotonic (updatePrediction p key v)"
  by (cases key) (auto simp: updatePrediction_def monotonic_def Let_def)

lemma updatePrediction_edited:
  "get_prediction (updatePrediction p key v) key = v"
  by (cases key) (simp_all add: updatePrediction_def Let_def)

text \<open>
  C1.  From a vector of probabilities in ascending order (above15 <= above10 <=
  above5 <= above0), an edit of any field to any probability \<open>v\<close> returns a
  vector that is again in ascending order and whose edited field is exactly \<open>v\<close>.
\<close>

theorem C1_edit_keeps_monotonic:
  assumes "probabilities p" and "monotonic p" and "probability v"
  shows "monotonic (updatePrediction p key v)
         \<and> get_prediction (updatePrediction p key v) key = v"
  using assms(2) by (simp add: updatePrediction_monotonic updatePrediction_edited)

theorem C1_edit_keeps_monotonic_witness:
  "probabilities initialPredictions \<and> monotonic initialPredictions \<and> probability 0.7
   \<and> monotonic (updatePrediction initialPredictions Above_10pct 0.7)
   \<and> get_prediction (updatePrediction initialPredictions Above_10pct 0.7) Above_10pct = 0.7"
proof -
  have h1: "probabilities initialPredictions"
    by (simp add: probabilities_def probability_def initialPredictions_def)
  have h2: "monotonic initialPredictions"
    by (simp add: monotonic_def initialPredictions_def)
  have h3: "probability 0.7"
    by (simp add: probability_def)
  show ?thesis
    using h1 h2 h3 C1_edit_keeps_monotonic [OF h1 h2 h3, of Above_10pct] by blast
qed

lemma updatePrediction_other:
  assumes "monotonic p" and "g \<noteq> key"
  shows "get_prediction (updatePrediction p key v) g =
           (if consistent_with key v g (get_prediction p g) then get_prediction p g else v)"
proof (cases key)
  case Above_15pct
  with assms show ?thesis
    by (cases g) (auto simp: updatePrediction_def monotonic_def consistent_with_def Let_def)
next
  case Above_10pct
  with assms show ?thesis
    by (cases g) (auto simp: updatePrediction_def monotonic_def consistent_with_def Let_def)
next
  case Above_5pct
  with assms show ?thesis
    by (cases g) (auto simp: updatePrediction_def monotonic_def consistent_with_def Let_def)
next
  case Above_0pct
  with assms show ?thesis
    by (cases g) (auto simp: updatePrediction_def monotonic_def consistent_with_def Let_def)
qed

lemma initialPredictions_to_half:
  "updatePrediction initialPredictions Above_10pct 0.5 =
     \<lparr>above_15pct = 0.3, above_10pct = 0.5, above_5pct = 0.6, above_0pct = 0.75\<rparr>"
  by (simp add: updatePrediction_def initialPredictions_def Let_def)

lemma initialPredictions_to_seven_tenths:
  "updatePrediction initialPredictions Above_10pct 0.7 =
     \<lparr>above_15pct = 0.3, above_10pct = 0.7, above_5pct = 0.7, above_0pct = 0.75\<rparr>"
  by (simp add: updatePrediction_def initialPredictions_def Let_def)

text \<open>
  C3.  From a vector of probabilities in ascending order, an edit of one field
  to a probability \<open>v\<close> leaves every other field that is already consistent
  with \<open>v\<close> as it was and sets every other field that is not to exactly \<open>v\<close>.
  From (0.3, 0.4, 0.6, 0.75), setting above10 to 0.5 gives (0.3, 0.5, 0.6,
  0.75) and setting above10 to 0.7 gives (0.3, 0.7, 0.7, 0.75).
\<close>

theorem C3_edit_moves_only_violators:
  "(probabilities p \<and> monotonic p \<and> probability v \<and> g \<noteq> key \<longrightarrow>
      get_prediction (updatePrediction p key v) g =
        (if consistent_with key v g (get_prediction p g) then get_prediction p g else v))
   \<and> updatePrediction
        \<lparr>above_15pct = 0.3, above_10pct = 0.4, above_5pct = 0.6, above_0pct = 0.75\<rparr>
        Above_10pct 0.5 =
        \<lparr>above_15pct = 0.3, above_10pct = 0.5, above_5pct = 0.6, above_0pct = 0.75\<rparr>
   \<and> updatePrediction
        \<lparr>above_15pct = 0.3, above_10pct = 0.4, above_5pct = 0.6, above_0pct = 0.75\<rparr>
        Above_10pct 0.7 =
        \<lparr>above_15pct = 0.3, above_10pct = 0.7, above_5pct = 0.7, above_0pct = 0.75\<rparr>"
  using updatePrediction_other [of p g key v]
    initialPredictions_to_half initialPredictions_to_seven_tenths
  by (simp add: initialPredictions_def)

theorem C3_edit_moves_only_violators_witness:
  "probabilities initialPredictions \<and> monotonic initialPredictions \<and> probability 0.7
   \<and> Above_5pct \<noteq> Above_10pct \<and> Above_0pct \<noteq> Above_10pct
   \<and> \<not> consistent_with Above_10pct 0.7 Above_5pct (get_prediction initialPredictions Above_5pct)
   \<and> get_prediction (updatePrediction initialPredictions Above_10pct 0.7) Above_5pct = 0.7
   \<and> consistent_with Above_10pct 0.7 Above_0pct (get_prediction initialPredictions Above_0pct)
   \<and> get_prediction (updatePrediction initialPredictions Above_10pct 0.7) Above_0pct = 0.75"
proof -
  have h1: "probabilities initialPredictions"
    by (simp add: probabilities_def probability_def initialPredictions_def)
  have h2: "monotonic initialPredictions"
    by (simp add: monotonic_def initialPredictions_def)
  have h3: "probability 0.7"
    by (simp add: probability_def)
  have h4: "\<not> consistent_with Above_10pct 0.7 Above_5pct (get_prediction initialPredictions Above_5pct)"
    by (simp add: consistent_with_def initialPredictions_def)
  have h5: "consistent_with Above_10pct 0.7 Above_0pct (get_prediction initialPredictions Above_0pct)"
    by (simp add: consistent_with_def initialPredictions_def)
  have v5: "get_prediction initialPredictions Above_0pct = 0.75"
    by (simp add: initialPredictions_def)
  from C3_edit_moves_only_violators [of initialPredictions "0.7" Above_5pct Above_10pct] h1 h2 h3 h4
  have r1: "get_prediction (updatePrediction initialPredictions Above_10pct 0.7) Above_5pct = 0.7"
    by simp
  from C3_edit_moves_only_violators [of initialPredictions "0.7" Above_0pct Above_10pct] h1 h2 h3 h5 v5
  have r2: "get_prediction (updatePrediction initialPredictions Above_10pct 0.7) Above_0pct = 0.75"
    by simp
  show ?thesis using h1 h2 h3 h4 h5 r1 r2 by simp
qed

lemma updatePrediction_idem:
  "updatePrediction (updatePrediction p key v) key v = updatePrediction p key v"
  by (cases key) (auto simp: updatePrediction_def Let_def)

text \<open>
  C10.  A row shows Yes exactly when its probability is at least 0.5.  At the
  probability 0.5 the confidence is 0.5, and choosing No hands 1 - 0.5 = 0.5
  to the form: the same probability, which is still shown as Yes.
\<close>

theorem C10_flip_at_half:
  "(\<forall>x. isYes x = (x \<ge> 0.5))
   \<and> isYes 0.5 \<and> confidence 0.5 = 0.5
   \<and> handleDirectionChange 0.5 False = 0.5
   \<and> isYes (handleDirectionChange 0.5 False)"
  by (simp add: isYes_def confidence_def handleDirectionChange_def)


section \<open>Properties of the allocation sliders\<close>

lemma newCash_nonneg:
  "0 \<le> 100 - min v (100 - otherAssets a key) - otherAssets a key"
  by simp

lemma updateAllocationWithCashAdjust_total:
  "total (updateAllocationWithCashAdjust a key v) = 100"
  by (cases key)
     (simp_all add: updateAllocationWithCashAdjust_def otherAssets_def total_def Let_def)

text \<open>
  C2.  When the two non-cash fields that are not edited sum to at most 100
  and the new value lies between 0 and 100, an edit of stocks, bonds or gold
  returns a vector whose four fields sum to exactly 100.
\<close>

theorem C2_adjust_sums_to_100:
  assumes "otherAssets a key \<le> 100" and "percentage v"
  shows "total (updateAllocationWithCashAdjust a key v) = 100"
  by (rule updateAllocationWithCashAdjust_total)

theorem C2_adjust_sums_to_100_witness:
  "otherAssets initialAllocation KStocks \<le> 100 \<and> percentage 90
   \<and> total (updateAllocationWithCashAdjust initialAllocation KStocks 90) = 100"
proof -
  have h1: "otherAssets initialAllocation KStocks \<le> 100"
    by (simp add: otherAssets_def initialAllocation_def)
  have h2: "percentage 90"
    by (simp add: percentage_def)
  show ?thesis
    using h1 h2 C2_adjust_sums_to_100 [OF h1 h2] by blast
qed

text \<open>
  C4.  An edit of stocks, bonds or gold to \<open>v\<close> sets that field to the smaller
  of \<open>v\<close> and 100 minus the sum of the other two non-cash fields, sets cash to
  the larger of 0 and 100 minus the new field minus that sum, and leaves the
  other two non-cash fields as they were.  With bonds 50, gold 0 and cash 50,
  setting stocks to 90 gives stocks 50 and cash 0.
\<close>

theorem C4_adjust_clamps_and_refills_cash:
  "updateAllocationWithCashAdjust a KStocks v =
     a\<lparr>stocks := min v (100 - (bonds a + gold a)),
       cash := max 0 (100 - min v (100 - (bonds a + gold a)) - (bonds a + gold a))\<rparr>
   \<and> updateAllocationWithCashAdjust a KBonds v =
     a\<lparr>bonds := min v (100 - (stocks a + gold a)),
       cash := max 0 (100 - min v (100 - (stocks a + gold a)) - (stocks a + gold a))\<rparr>
   \<and> updateAllocationWithCashAdjust a KGold v =
     a\<lparr>gold := min v (100 - (stocks a + bonds a)),
       cash := max 0 (100 - min v (100 - (stocks a + bonds a)) - (stocks a + bonds a))\<rparr>
   \<and> updateAllocationWithCashAdjust \<lparr>stocks = s, bonds = 50, cash = 50, gold = 0\<rparr> KStocks 90 =
     \<lparr>stocks = 50, bonds = 50, cash = 0, gold = 0\<rparr>"
  by (simp add: updateAllocationWithCashAdjust_def otherAssets_def Let_def)

text \<open>
  C5.  An edit of cash to \<open>v\<close> sets cash to the smaller of \<open>v\<close> and 100 minus
  the sum of stocks, bonds and gold, and leaves those three as they were; the
  sum may then be below 100.  From stocks 60, bonds 30, gold 5, cash 5,
  setting cash to 0 gives stocks 60, bonds 30, gold 5, cash 0, which sums to 95.
\<close>

theorem C5_cash_edit_keeps_others:
  "updateCash a v = a\<lparr>cash := min v (100 - (stocks a + bonds a + gold a))\<rparr>
   \<and> updateCash \<lparr>stocks = 60, bonds = 30, cash = 5, gold = 5\<rparr> 0 =
       \<lparr>stocks = 60, bonds = 30, cash = 0, gold = 5\<rparr>
   \<and> total (updateCash \<lparr>stocks = 60, bonds = 30, cash = 5, gold = 5\<rparr> 0) = 95"
  by (simp add: updateCash_def total_def Let_def)

lemma updateAllocationWithCashAdjust_idem:
  "updateAllocationWithCashAdjust (updateAllocationWithCashAdjust a key v) key v =
     updateAllocationWithCashAdjust a key v"
  by (cases key)
     (simp_all add: updateAllocationWithCashAdjust_def otherAssets_def Let_def)

lemma updateCash_idem:
  "updateCash (updateCash a v) v = updateCash a v"
  by (simp add: updateCash_def Let_def)

text \<open>
  C9.  Applying the same edit twice in a row gives the same vector as
  applying it once: for every prediction vector, field and value, and for
  every allocation vector, slider (cash included) and value.
\<close>

theorem C9_edits_idempotent:
  "updatePrediction (updatePrediction p key v) key v = updatePrediction p key v
   \<and> applyAllocationEdit (applyAllocationEdit a row w) row w = applyAllocationEdit a row w"
  by (cases row)
     (simp_all add: updatePrediction_idem updateAllocationWithCashAdjust_idem updateCash_idem)

lemma applyAllocationEdit_percentages:
  assumes "percentages a" and "untouchedAssets a row \<le> 100" and "percentage v"
  shows "percentages (applyAllocationEdit a row v)"
proof (cases row)
  case StocksRow
  with assms show ?thesis
    by (auto simp: percentages_def percentage_def updateAllocationWithCashAdjust_def
        otherAssets_def Let_def)
next
  case BondsRow
  with assms show ?thesis
    by (auto simp: percentages_def percentage_def updateAllocationWithCashAdjust_def
        otherAssets_def Let_def)
next
  case GoldRow
  with assms show ?thesis
    by (auto simp: percentages_def percentage_def updateAllocationWithCashAdjust_def
        otherAssets_def Let_def)
next
  case CashRow
  with assms show ?thesis
    by (auto simp: percentages_def percentage_def updateCash_def Let_def)
qed

text \<open>
  The states the component itself can reach keep the non-cash fields within
  100: the initial allocation has every field between 0 and 100 and stocks +
  bonds + gold at most 100, and an edit of any slider to a value between 0
  and 100 keeps both.
\<close>

lemma initialAllocation_within:
  "percentages initialAllocation
   \<and> stocks initialAllocation + bonds initialAllocation + gold initialAllocation \<le> 100"
  by (simp add: percentages_def percentage_def initialAllocation_def)

lemma applyAllocationEdit_within:
  assumes "percentages a" and "stocks a + bonds a + gold a \<le> 100" and "percentage v"
  shows "percentages (applyAllocationEdit a row v)"
    and "stocks (applyAllocationEdit a row v) + bonds (applyAllocationEdit a row v)
         + gold (applyAllocationEdit a row v) \<le> 100"
proof -
  from assms(1,2) have "untouchedAssets a row \<le> 100"
    by (cases row) (auto simp: percentages_def percentage_def)
  with assms(1,3) show "percentages (applyAllocationEdit a row v)"
    by (simp add: applyAllocationEdit_percentages)
  from assms show "stocks (applyAllocationEdit a row v) + bonds (applyAllocationEdit a row v)
         + gold (applyAllocationEdit a row v) \<le> 100"
    by (cases row)
       (auto simp: percentages_def percentage_def updateAllocationWithCashAdjust_def
          updateCash_def otherAssets_def Let_def)
qed

text \<open>
  C7, as stated, fails.  With bonds 80 and gold 80 (every field between 0 and
  100), setting stocks to 10 caps it at 100 - 160 and returns stocks -60; with
  stocks, bonds and gold at 50 each, setting cash to 10 returns cash -50.
  Neither handler floors the edited field at 0.
\<close>

theorem C7_negative_field_counterexample:
  "percentages \<lparr>stocks = 0, bonds = 80, cash = 0, gold = 80\<rparr> \<and> percentage 10
   \<and> stocks (applyAllocationEdit \<lparr>stocks = 0, bonds = 80, cash = 0, gold = 80\<rparr> StocksRow 10) = - 60
   \<and> \<not> percentages (applyAllocationEdit \<lparr>stocks = 0, bonds = 80, cash = 0, gold = 80\<rparr> StocksRow 10)
   \<and> percentages \<lparr>stocks = 50, bonds = 50, cash = 0, gold = 50\<rparr>
   \<and> cash (applyAllocationEdit \<lparr>stocks = 50, bonds = 50, cash = 0, gold = 50\<rparr> CashRow 10) = - 50
   \<and> \<not> percentages (applyAllocationEdit \<lparr>stocks = 50, bonds = 50, cash = 0, gold = 50\<rparr> CashRow 10)"
  by (simp add: percentages_def percentage_def updateAllocationWithCashAdjust_def
      updateCash_def otherAssets_def Let_def)

text \<open>
  C7, amended.  For every vector whose fields each lie between 0 and 100 and
  in which the non-cash fields the edit leaves alone sum to at most 100, and
  every new value between 0 and 100, an edit of any slider (cash included)
  returns a vector whose fields each lie between 0 and 100.
\<close>

theorem C7_fields_stay_percentages:
  assumes "percentages a" and "untouchedAssets a row \<le> 100" and "percentage v"
  shows "percentages (applyAllocationEdit a row v)"
  using assms by (rule applyAllocationEdit_percentages)

theorem C7_fields_stay_percentages_witness:
  "percentages initialAllocation \<and> untouchedAssets initialAllocation BondsRow \<le> 100
   \<and> percentage 100
   \<and> percentages (applyAllocationEdit initialAllocation BondsRow 100)"
proof -
  have h1: "percentages initialAllocation"
    by (simp add: percentages_def percentage_def initialAllocation_def)
  have h2: "untouchedAssets initialAllocation BondsRow \<le> 100"
    by (simp add: initialAllocation_def)
  have h3: "percentage 100"
    by (simp add: percentage_def)
  show ?thesis
    using h1 h2 h3 C7_fields_stay_percentages [OF h1 h2 h3] by blast
qed

text \<open>
  Every vector the buttons pass to \<open>applyPreset\<close> sums to 100, so a preset
  with another sum never reaches it.
\<close>

lemma sliderPresets_total:
  "map (\<lambda>p. total (snd p)) sliderPresets = [100, 100, 100, 100, 100]"
  by (simp add: sliderPresets_def total_def)

text \<open>
  C8.  Applying a preset is atomic and verbatim: for every starting vector
  and every preset, the call replaces all four fields together with exactly
  the preset's values, with no recomputation, so no field is ever updated
  without the others.  This is the first alternative of "either all four
  fields are replaced or the call fails validation", and it holds for every
  preset.  In particular the preset with 25 in each field always yields
  exactly that vector, whatever the starting vector.
\<close>

theorem C8_preset_verbatim:
  "applyPreset a preset = preset
   \<and> stocks (applyPreset a preset) = stocks preset
   \<and> bonds (applyPreset a preset) = bonds preset
   \<and> gold (applyPreset a preset) = gold preset
   \<and> cash (applyPreset a preset) = cash preset
   \<and> applyPreset a \<lparr>stocks = 25, bonds = 25, cash = 25, gold = 25\<rparr> =
       \<lparr>stocks = 25, bonds = 25, cash = 25, gold = 25\<rparr>"
  by (simp add: applyPreset_def)


section \<open>Properties of submission\<close>

lemma handleSubmit_allocation:
  "allocation (home (handleSubmit h answer)) = allocation h"
  by (simp add: handleSubmit_def Let_def split: option.splits sum.splits)

lemma handleSubmit_blocked:
  assumes "total (allocation h) \<noteq> 100"
  shows "request (handleSubmit h answer) = None"
    and "redirect (handleSubmit h answer) = None"
    and "gameState (home (handleSubmit h answer)) = gameState h"
    and "predictions (home (handleSubmit h answer)) = predictions h"
  using assms
  by (simp_all add: handleSubmit_def total_def Let_def split: option.splits)

lemma handleSubmit_issues_request:
  assumes "scenario h = Some sid" and "length (rationale h) \<le> 500"
    and "total (allocation h) = 100"
  shows "request (handleSubmit h answer) =
           Some \<lparr>gc_scenario_id = sid, gc_predictions = predictions h,
                 gc_allocation = allocation h, gc_rationale = rationale h\<rparr>"
  using assms
  by (simp add: handleSubmit_def total_def Let_def split: sum.splits)

text \<open>
  C6.  The validity flag holds exactly when stocks + bonds + gold + cash is
  100, and the reported difference is that sum minus 100.  Submitting never
  changes the allocation, and when the flag is false no game-creation request
  is issued, nothing is redirected and the page stays in its game state.  A
  vector summing to 95 is reported invalid with difference -5.
\<close>

theorem C6_invalid_allocation_blocks_submit:
  "valid (validateAllocation a) = (stocks a + bonds a + gold a + cash a = 100)
   \<and> delta (validateAllocation a) = stocks a + bonds a + gold a + cash a - 100
   \<and> allocation (home (handleSubmit h answer)) = allocation h
   \<and> (\<not> valid (validateAllocation (allocation h)) \<longrightarrow>
        request (handleSubmit h answer) = None
        \<and> redirect (handleSubmit h answer) = None
        \<and> gameState (home (handleSubmit h answer)) = gameState h)
   \<and> (total a = 95 \<longrightarrow> validateAllocation a = \<lparr>valid = False, delta = - 5\<rparr>)"
proof -
  have "valid (validateAllocation a) = (stocks a + bonds a + gold a + cash a = 100)"
    by (auto simp: validateAllocation_def isValid_def total_def)
  moreover have "delta (validateAllocation a) = stocks a + bonds a + gold a + cash a - 100"
    by (simp add: validateAllocation_def total_def)
  moreover have "total a = 95 \<longrightarrow> validateAllocation a = \<lparr>valid = False, delta = - 5\<rparr>"
    by (simp add: validateAllocation_def isValid_def)
  moreover have "\<not> valid (validateAllocation (allocation h)) \<longrightarrow>
        request (handleSubmit h answer) = None
        \<and> redirect (handleSubmit h answer) = None
        \<and> gameState (home (handleSubmit h answer)) = gameState h"
    using handleSubmit_blocked [of h answer]
    by (simp add: validateAllocation_def isValid_def)
  ultimately show ?thesis
    using handleSubmit_allocation [of h answer] by blast
qed

theorem C6_invalid_allocation_blocks_submit_witness:
  "total \<lparr>stocks = 60, bonds = 30, cash = 0, gold = 5\<rparr> = 95
   \<and> \<not> valid (validateAllocation \<lparr>stocks = 60, bonds = 30, cash = 0, gold = 5\<rparr>)
   \<and> validateAllocation \<lparr>stocks = 60, bonds = 30, cash = 0, gold = 5\<rparr> =
       \<lparr>valid = False, delta = - 5\<rparr>
   \<and> request (handleSubmit
        \<lparr>gameState = Playing, scenario = Some 7, error = None,
         predictions = initialPredictions,
         allocation = \<lparr>stocks = 60, bonds = 30, cash = 0, gold = 5\<rparr>,
         rationale = ''rates will fall''\<rparr> (Inr ''abc'')) = None"
proof -
  let ?a = "\<lparr>stocks = 60, bonds = 30, cash = 0, gold = 5\<rparr>"
  let ?h = "\<lparr>gameState = Playing, scenario = Some 7, error = None,
             predictions = initialPredictions, allocation = ?a,
             rationale = ''rates will fall''\<rparr>"
  have h1: "total ?a = 95"
    by (simp add: total_def)
  have h2: "\<not> valid (validateAllocation (allocation ?h))"
    by (simp add: validateAllocation_def isValid_def total_def)
  from C6_invalid_allocation_blocks_submit [of ?a ?h "Inr ''abc''"] h1
  have r1: "validateAllocation ?a = \<lparr>valid = False, delta = - 5\<rparr>"
    by blast
  from C6_invalid_allocation_blocks_submit [of ?a ?h "Inr ''abc''"] h2
  have r2: "request (handleSubmit ?h (Inr ''abc'')) = None"
    by blast
  from h2 have h2': "\<not> valid (validateAllocation ?a)"
    by simp
  show ?thesis using h1 h2' r1 r2 by blast
qed

end
